theory Spec2Isabelle
  imports Main "HOL-Library.AList"
begin

section \<open>Python values and time\<close>

text \<open>
  The values that occur in the claim dictionaries of \<^verbatim>\<open>services/auth.py\<close>: strings,
  integers, \<^verbatim>\<open>datetime\<close> objects and \<^verbatim>\<open>None\<close>. A point in time is an integer number of
  microseconds since the epoch, the resolution of \<^verbatim>\<open>datetime.utcnow()\<close>. Every operation
  takes the reading of the clock as its last argument \<open>now\<close>; the source reads the clock
  several times within one call, the model reads it once per call.
\<close>

datatype pyval = PStr string | PInt int | PDatetime int | PNone

type_synonym claims = "(string \<times> pyval) list"

text \<open>
  Exceptions: the HTTP error of the handlers with status and detail, the exceptions of
  the token library, and Python errors that no handler of the source catches. In Python
  \<^verbatim>\<open>ExpiredSignatureError\<close> and \<^verbatim>\<open>JWTClaimsError\<close> are subclasses of \<^verbatim>\<open>JWTError\<close>, so
  a clause \<^verbatim>\<open>except JWTError\<close> catches exactly the exceptions for which \<open>is_JWTError\<close>
  holds.
\<close>

datatype exn =
    HTTPException nat string
  | JWTError string | ExpiredSignatureError | JWTClaimsError string
  | KeyError string | AttributeError string | TypeError string | ValueError string

definition is_JWTError :: "exn \<Rightarrow> bool" where
  "is_JWTError e =
     (case e of
        JWTError m \<Rightarrow> True
      | ExpiredSignatureError \<Rightarrow> True
      | JWTClaimsError m \<Rightarrow> True
      | _ \<Rightarrow> False)"

text \<open>
  The builtin \<^verbatim>\<open>int(x)\<close>, which the library applies to the \<^verbatim>\<open>iat\<close> and \<^verbatim>\<open>exp\<close> claims.
  An integer is returned as it is. A string is parsed in base ten: white space around it
  is dropped, a sign may come first, and the digits may be separated by single
  underscores; anything else raises \<^verbatim>\<open>ValueError\<close>. \<^verbatim>\<open>None\<close> and a \<^verbatim>\<open>datetime\<close> raise
  \<^verbatim>\<open>TypeError\<close>. Characters are bytes: digits and white space outside ASCII, and the
  interpreter's limit on the number of digits, are not modelled.
\<close>

definition py_isspace :: "char \<Rightarrow> bool" where
  "py_isspace c =
     (c \<in> set [CHR 0x09, CHR 0x0A, CHR 0x0B, CHR 0x0C, CHR 0x0D,
                CHR 0x1C, CHR 0x1D, CHR 0x1E, CHR 0x1F, CHR 0x20])"

definition py_isdigit :: "char \<Rightarrow> bool" where
  "py_isdigit c = (c \<in> set ''0123456789'')"

definition digit_value :: "char \<Rightarrow> int" where
  "digit_value c = int (of_char c) - 48"

text \<open>\<open>parse_digits acc cs\<close> reads the rest of a number whose last character read was a
  digit.\<close>

fun parse_digits :: "int \<Rightarrow> string \<Rightarrow> int option" where
  "parse_digits acc [] = Some acc"
| "parse_digits acc (c # cs) =
     (if py_isdigit c then parse_digits (10 * acc + digit_value c) cs
      else if c = CHR ''_'' then
        (case cs of
           [] \<Rightarrow> None
         | d # ds \<Rightarrow>
             if py_isdigit d then parse_digits (10 * acc + digit_value d) ds else None)
      else None)"

definition int_of_str :: "string \<Rightarrow> int option" where
  "int_of_str s =
     (let t = rev (dropWhile py_isspace (rev (dropWhile py_isspace s)));
          negative = (case t of [] \<Rightarrow> False | c # r \<Rightarrow> c = CHR ''-'');
          r = (case t of [] \<Rightarrow> [] | c # r \<Rightarrow> if c = CHR ''-'' \<or> c = CHR ''+'' then r else t)
      in case r of
           [] \<Rightarrow> None
         | c # cs \<Rightarrow>
             if py_isdigit c
             then map_option (\<lambda>v. if negative then - v else v) (parse_digits (digit_value c) cs)
             else None)"

definition py_int :: "pyval \<Rightarrow> exn + int" where
  "py_int x =
     (case x of
        PInt n \<Rightarrow> Inr n
      | PStr s \<Rightarrow>
          (case int_of_str s of
             None \<Rightarrow> Inl (ValueError ''invalid literal for int() with base 10'')
           | Some n \<Rightarrow> Inr n)
      | PDatetime d \<Rightarrow> Inl (TypeError ''int() argument must be a string or a number'')
      | PNone \<Rightarrow> Inl (TypeError ''int() argument must be a string or a number''))"

definition timedelta_seconds :: "int \<Rightarrow> int" where
  "timedelta_seconds n = n * 1000000"

definition timedelta_minutes :: "int \<Rightarrow> int" where
  "timedelta_minutes n = n * 60 * 1000000"

definition timedelta_days :: "int \<Rightarrow> int" where
  "timedelta_days n = n * 86400 * 1000000"

text \<open>\<^verbatim>\<open>timegm(d.utctimetuple())\<close>: whole seconds since the epoch, the fraction dropped.\<close>

definition timegm :: "int \<Rightarrow> int" where
  "timegm d = d div 1000000"


section \<open>The signed-token library (\<^verbatim>\<open>jose.jwt\<close>)\<close>

text \<open>
  \<^verbatim>\<open>jwt.encode\<close> and \<^verbatim>\<open>jwt.decode\<close> belong to an external library. They are modelled
  for the HMAC algorithms (\<^verbatim>\<open>HS256\<close>, \<^verbatim>\<open>HS384\<close>, \<^verbatim>\<open>HS512\<close>), the ones for which a string of
  letters is a key, and symbolically. A compact token is either a string that does not
  split into three segments with a readable header (\<open>Garbage\<close>), or \<open>JWS alg payload sg v\<close>:
  \<^item> \<open>alg\<close> and \<open>payload\<close> stand for the header and the payload segment, which are signed
    as they are written; the encoder writes a dictionary in one way only.
  \<^item> \<open>sg\<close> is the value that the signature segment decodes to, and \<open>v\<close> tells apart the
    texts of the signature segment that decode to this value: \<open>0\<close> is the text the
    encoder writes; the decoder ignores the unused low bits of the last character (two
    bits of a 32-byte signature), so an altered last character gives another \<open>v\<close> and the
    same \<open>sg\<close>.
  \<^item> A signature is the keyed hash \<open>Mac k alg payload\<close> under the prepared key \<open>k\<close>, a free
    constructor: signatures are equal only if prepared key, header and payload are.
  HMAC prepares a key no longer than the block of the hash by padding it with zero
  bytes to the block, and a longer key by hashing it; the hash of a long key is kept
  symbolic (\<open>Hashed\<close>).
\<close>

datatype hmac_key = Padded string | Hashed string

definition hmac_block_size :: "string \<Rightarrow> nat" where
  "hmac_block_size alg = (if alg = ''HS256'' then 64 else 128)"

definition prepare_key :: "string \<Rightarrow> string \<Rightarrow> hmac_key" where
  "prepare_key alg key =
     (if length key \<le> hmac_block_size alg
      then Padded (key @ replicate (hmac_block_size alg - length key) (CHR 0x00))
      else Hashed key)"

datatype jws_signature = Mac hmac_key string claims

datatype token = JWS string claims jws_signature nat | Garbage string

text \<open>
  \<^verbatim>\<open>jwt.encode\<close> replaces a \<^verbatim>\<open>datetime\<close> under \<^verbatim>\<open>exp\<close>, \<^verbatim>\<open>iat\<close> or \<^verbatim>\<open>nbf\<close> by its
  \<^verbatim>\<open>timegm\<close> value and signs the resulting claims.
\<close>

definition intdate :: "string \<times> pyval \<Rightarrow> string \<times> pyval" where
  "intdate kv =
     (case snd kv of
        PDatetime d \<Rightarrow>
          if fst kv = ''exp'' \<or> fst kv = ''iat'' \<or> fst kv = ''nbf''
          then (fst kv, PInt (timegm d)) else kv
      | _ \<Rightarrow> kv)"

definition jwt_encode :: "claims \<Rightarrow> string \<Rightarrow> string \<Rightarrow> token" where
  "jwt_encode to_encode key algorithm =
     JWS algorithm (map intdate to_encode)
       (Mac (prepare_key algorithm key) algorithm (map intdate to_encode)) 0"

text \<open>
  \<^verbatim>\<open>jwt.decode\<close>: the signature is verified first, then the claims are validated in the
  order \<^verbatim>\<open>iat\<close>, \<^verbatim>\<open>exp\<close>, \<^verbatim>\<open>sub\<close>. The validation of \<^verbatim>\<open>iat\<close> and \<^verbatim>\<open>exp\<close> applies \<^verbatim>\<open>int\<close> and
  turns its \<^verbatim>\<open>ValueError\<close> into a \<^verbatim>\<open>JWTClaimsError\<close>; a \<^verbatim>\<open>TypeError\<close> is not caught. A
  token is expired when \<^verbatim>\<open>exp < timegm(utcnow())\<close>. The claims \<^verbatim>\<open>nbf\<close>, \<^verbatim>\<open>aud\<close>, \<^verbatim>\<open>iss\<close>,
  \<^verbatim>\<open>jti\<close> and \<^verbatim>\<open>at_hash\<close>, which the source never sets, are not modelled.
\<close>

definition validate_iat :: "claims \<Rightarrow> exn option" where
  "validate_iat payload =
     (case map_of payload ''iat'' of
        None \<Rightarrow> None
      | Some v \<Rightarrow>
          (case py_int v of
             Inr iat \<Rightarrow> None
           | Inl (ValueError m) \<Rightarrow>
               Some (JWTClaimsError ''Issued At claim (iat) must be an integer.'')
           | Inl e \<Rightarrow> Some e))"

definition validate_exp :: "claims \<Rightarrow> int \<Rightarrow> exn option" where
  "validate_exp payload now =
     (case map_of payload ''exp'' of
        None \<Rightarrow> None
      | Some v \<Rightarrow>
          (case py_int v of
             Inr exp \<Rightarrow> if exp < timegm now then Some ExpiredSignatureError else None
           | Inl (ValueError m) \<Rightarrow>
               Some (JWTClaimsError ''Expiration Time claim (exp) must be an integer.'')
           | Inl e \<Rightarrow> Some e))"

definition validate_sub :: "claims \<Rightarrow> exn option" where
  "validate_sub payload =
     (case map_of payload ''sub'' of
        None \<Rightarrow> None
      | Some (PStr sub) \<Rightarrow> None
      | Some _ \<Rightarrow> Some (JWTClaimsError ''Subject must be a string.''))"

definition validate_claims :: "claims \<Rightarrow> int \<Rightarrow> exn option" where
  "validate_claims payload now =
     (case validate_iat payload of
        Some e \<Rightarrow> Some e
      | None \<Rightarrow>
          (case validate_exp payload now of
             Some e \<Rightarrow> Some e
           | None \<Rightarrow> validate_sub payload))"

definition jwt_decode :: "token \<Rightarrow> string \<Rightarrow> string list \<Rightarrow> int \<Rightarrow> exn + claims" where
  "jwt_decode token key algorithms now =
     (case token of
        Garbage s \<Rightarrow> Inl (JWTError ''Not enough segments'')
      | JWS alg payload sg v \<Rightarrow>
          if alg \<notin> set algorithms then Inl (JWTError ''The specified alg value is not allowed'')
          else if sg \<noteq> Mac (prepare_key alg key) alg payload
          then Inl (JWTError ''Signature verification failed.'')
          else (case validate_claims payload now of
                  Some e \<Rightarrow> Inl e
                | None \<Rightarrow> Inr payload))"


section \<open>The user store (\<^verbatim>\<open>database/models.py\<close>, \<^verbatim>\<open>repository/users.py\<close>)\<close>

record user =
  user_id :: nat
  user_username :: string
  user_email :: string
  user_password :: string
  user_created_at :: int
  user_avatar :: "string option"
  user_refresh_token :: "token option"
  user_confirmed :: bool

text \<open>The table \<^verbatim>\<open>users\<close>, in the order in which a query returns its rows.\<close>

type_synonym db = "user list"

definition get_user_by_email :: "pyval \<Rightarrow> db \<Rightarrow> user option" where
  "get_user_by_email email db = find (\<lambda>row. PStr (user_email row) = email) db"

text \<open>\<^verbatim>\<open>user.refresh_token = token; db.commit()\<close>: the row of the object \<open>user\<close> is the row
  with its primary key.\<close>

definition update_token :: "user \<Rightarrow> token option \<Rightarrow> db \<Rightarrow> db" where
  "update_token user token db =
     map (\<lambda>row. if user_id row = user_id user
                 then row\<lparr>user_refresh_token := token\<rparr> else row) db"

definition users_confirm_email :: "pyval \<Rightarrow> db \<Rightarrow> exn + db" where
  "users_confirm_email email db =
     (case get_user_by_email email db of
        None \<Rightarrow> Inl (AttributeError ''confirmed'')
      | Some user \<Rightarrow>
          Inr (map (\<lambda>row. if user_id row = user_id user
                           then row\<lparr>user_confirmed := True\<rparr> else row) db))"


section \<open>The class \<^verbatim>\<open>Auth\<close> (\<^verbatim>\<open>services/auth.py\<close>)\<close>

text \<open>
  The attributes of the class: the secret drawn at start-up, the configured algorithm
  and the verification function of the password context (an external library, kept as a
  parameter).
\<close>

record auth =
  SECRET_KEY :: string
  ALGORITHM :: string
  pwd_context_verify :: "string \<Rightarrow> string \<Rightarrow> bool"

definition verify_password :: "auth \<Rightarrow> string \<Rightarrow> string \<Rightarrow> bool" where
  "verify_password self plain_password hashed_password =
     pwd_context_verify self plain_password hashed_password"

text \<open>\<open>expires_delta\<close> is a number of seconds (whole seconds in the model) or \<^verbatim>\<open>None\<close>;
  the test \<^verbatim>\<open>if expires_delta:\<close> fails for \<^verbatim>\<open>None\<close> and for zero.\<close>

definition create_access_token :: "auth \<Rightarrow> claims \<Rightarrow> int option \<Rightarrow> int \<Rightarrow> token" where
  "create_access_token self data expires_delta now =
     (let expire = (case expires_delta of
                      None \<Rightarrow> now + timedelta_minutes 15
                    | Some d \<Rightarrow> if d \<noteq> 0 then now + timedelta_seconds d
                                else now + timedelta_minutes 15);
          to_encode = AList.update ''scope'' (PStr ''access_token'')
                        (AList.update ''exp'' (PDatetime expire)
                          (AList.update ''iat'' (PDatetime now) data))
      in jwt_encode to_encode (SECRET_KEY self) (ALGORITHM self))"

definition create_refresh_token :: "auth \<Rightarrow> claims \<Rightarrow> int option \<Rightarrow> int \<Rightarrow> token" where
  "create_refresh_token self data expires_delta now =
     (let expire = (case expires_delta of
                      None \<Rightarrow> now + timedelta_days 7
                    | Some d \<Rightarrow> if d \<noteq> 0 then now + timedelta_seconds d
                                else now + timedelta_days 7);
          to_encode = AList.update ''scope'' (PStr ''refresh_token'')
                        (AList.update ''exp'' (PDatetime expire)
                          (AList.update ''iat'' (PDatetime now) data))
      in jwt_encode to_encode (SECRET_KEY self) (ALGORITHM self))"

definition decode_refresh_token :: "auth \<Rightarrow> token \<Rightarrow> int \<Rightarrow> exn + pyval" where
  "decode_refresh_token self token now =
     (case jwt_decode token (SECRET_KEY self) [ALGORITHM self] now of
        Inl e \<Rightarrow>
          if is_JWTError e then Inl (HTTPException 401 ''Could not validate credentials'')
          else Inl e
      | Inr payload \<Rightarrow>
          (case map_of payload ''scope'' of
             None \<Rightarrow> Inl (KeyError ''scope'')
           | Some scope \<Rightarrow>
               if scope = PStr ''refresh_token'' then
                 (case map_of payload ''sub'' of
                    None \<Rightarrow> Inl (KeyError ''sub'')
                  | Some email \<Rightarrow> Inr email)
               else Inl (HTTPException 401 ''Invalid scope for token'')))"

definition credentials_exception :: exn where
  "credentials_exception = HTTPException 401 ''Could not validate credentials''"

definition get_current_user :: "auth \<Rightarrow> token \<Rightarrow> db \<Rightarrow> int \<Rightarrow> exn + user" where
  "get_current_user self token db now =
     (case jwt_decode token (SECRET_KEY self) [ALGORITHM self] now of
        Inl e \<Rightarrow> if is_JWTError e then Inl credentials_exception else Inl e
      | Inr payload \<Rightarrow>
          (case map_of payload ''scope'' of
             None \<Rightarrow> Inl (KeyError ''scope'')
           | Some scope \<Rightarrow>
               if scope = PStr ''access_token'' then
                 (case map_of payload ''sub'' of
                    None \<Rightarrow> Inl (KeyError ''sub'')
                  | Some email \<Rightarrow>
                      if email = PNone then Inl credentials_exception
                      else (case get_user_by_email email db of
                              None \<Rightarrow> Inl credentials_exception
                            | Some user \<Rightarrow> Inr user))
               else Inl credentials_exception))"

definition create_email_token :: "auth \<Rightarrow> claims \<Rightarrow> int \<Rightarrow> token" where
  "create_email_token self data now =
     (let expire = now + timedelta_days 7;
          to_encode = AList.update ''exp'' (PDatetime expire)
                        (AList.update ''iat'' (PDatetime now) data)
      in jwt_encode to_encode (SECRET_KEY self) (ALGORITHM self))"

definition get_email_from_token :: "auth \<Rightarrow> token \<Rightarrow> int \<Rightarrow> exn + pyval" where
  "get_email_from_token self token now =
     (case jwt_decode token (SECRET_KEY self) [ALGORITHM self] now of
        Inl e \<Rightarrow>
          if is_JWTError e then Inl (HTTPException 422 ''Invalid token for email verification'')
          else Inl e
      | Inr payload \<Rightarrow>
          (case map_of payload ''sub'' of
             None \<Rightarrow> Inl (KeyError ''sub'')
           | Some email \<Rightarrow> Inr email))"


section \<open>The handlers (\<^verbatim>\<open>routes/auth.py\<close>)\<close>

text \<open>A handler returns its response or its exception, and the table as committed.\<close>

record token_model =
  tm_access_token :: token
  tm_refresh_token :: token
  tm_token_type :: string

definition login :: "auth \<Rightarrow> string \<Rightarrow> string \<Rightarrow> db \<Rightarrow> int \<Rightarrow> (exn + token_model) \<times> db" where
  "login self username password db now =
     (case get_user_by_email (PStr username) db of
        None \<Rightarrow> (Inl (HTTPException 401 ''Invalid email''), db)
      | Some user \<Rightarrow>
          if \<not> user_confirmed user then
            (Inl (HTTPException 401 ''Email not confirmed''), db)
          else if \<not> verify_password self password (user_password user) then
            (Inl (HTTPException 401 ''Invalid password''), db)
          else
            (let access = create_access_token self [(''sub'', PStr (user_email user))] None now;
                 refresh = create_refresh_token self [(''sub'', PStr (user_email user))] None now
             in (Inr \<lparr>tm_access_token = access, tm_refresh_token = refresh,
                       tm_token_type = ''bearer''\<rparr>,
                 update_token user (Some refresh) db)))"

definition refresh_token :: "auth \<Rightarrow> token \<Rightarrow> db \<Rightarrow> int \<Rightarrow> (exn + token_model) \<times> db" where
  "refresh_token self token db now =
     (case decode_refresh_token self token now of
        Inl e \<Rightarrow> (Inl e, db)
      | Inr email \<Rightarrow>
          (case get_user_by_email email db of
             None \<Rightarrow> (Inl (AttributeError ''refresh_token''), db)
           | Some user \<Rightarrow>
               if user_refresh_token user \<noteq> Some token then
                 (Inl (HTTPException 401 ''Invalid refresh token''), update_token user None db)
               else
                 (let access = create_access_token self [(''sub'', email)] None now;
                      refresh = create_refresh_token self [(''sub'', email)] None now
                  in (Inr \<lparr>tm_access_token = access, tm_refresh_token = refresh,
                            tm_token_type = ''bearer''\<rparr>,
                      update_token user (Some refresh) db))))"

definition confirm_email :: "auth \<Rightarrow> token \<Rightarrow> db \<Rightarrow> int \<Rightarrow> (exn + string) \<times> db" where
  "confirm_email self token db now =
     (case get_email_from_token self token now of
        Inl e \<Rightarrow> (Inl e, db)
      | Inr email \<Rightarrow>
          (case get_user_by_email email db of
             None \<Rightarrow> (Inl (HTTPException 400 ''Verification error''), db)
           | Some user \<Rightarrow>
               if user_confirmed user then (Inr ''Your email is already confirmed'', db)
               else (case users_confirm_email email db of
                       Inl e \<Rightarrow> (Inl e, db)
                     | Inr db' \<Rightarrow> (Inr ''Email confirmed'', db'))))"


section \<open>Notions used to state the properties\<close>



subsection \<open>Example data\<close>

definition ex_auth :: auth where
  "ex_auth = \<lparr>SECRET_KEY = ''s3cret'', ALGORITHM = ''HS256'',
              pwd_context_verify = (\<lambda>plain hashed. hashed = ''hash:'' @ plain)\<rparr>"

definition ex_user :: user where
  "ex_user = \<lparr>user_id = 1, user_username = ''ann'', user_email = ''a@example.com'',
              user_password = ''hash:pw'', user_created_at = 0, user_avatar = None,
              user_refresh_token = None, user_confirmed = True\<rparr>"

definition ex_t0 :: int where
  "ex_t0 = 1700000000100000"

definition ex_r1 :: token where
  "ex_r1 = create_refresh_token ex_auth [(''sub'', PStr ''a@example.com'')] None ex_t0"

definition ex_a1 :: token where
  "ex_a1 = create_access_token ex_auth [(''sub'', PStr ''a@example.com'')] None ex_t0"

definition ex_db1 :: db where
  "ex_db1 = [ex_user\<lparr>user_refresh_token := Some ex_r1\<rparr>]"

definition ex_forged :: token where
  "ex_forged = create_refresh_token (ex_auth\<lparr>SECRET_KEY := ''other''\<rparr>)
                 [(''sub'', PStr ''a@example.com'')] None ex_t0"

definition ex_r2 :: token where
  "ex_r2 = create_refresh_token ex_auth [(''sub'', PStr ''a@example.com'')] None (ex_t0 + 5000000)"

definition ex_out :: token_model where
  "ex_out = \<lparr>tm_access_token = create_access_token ex_auth [(''sub'', PStr ''a@example.com'')]
                                  None (ex_t0 + 5000000),
              tm_refresh_token = ex_r2, tm_token_type = ''bearer''\<rparr>"

definition ex_db2 :: db where
  "ex_db2 = [ex_user\<lparr>user_refresh_token := Some ex_r2\<rparr>]"

definition ex_email_token :: token where
  "ex_email_token = create_email_token ex_auth [(''sub'', PStr ''a@example.com'')] ex_t0"

definition ex_payload :: claims where
  "ex_payload = [(''sub'', PStr ''a@example.com''), (''iat'', PInt 1700000000),
                 (''exp'', PInt 1700604800), (''scope'', PStr ''refresh_token'')]"

text \<open>The token \<open>ex_r1\<close> with the last character of its signature segment altered in the
  ignored bits, and the process secret followed by a zero byte.\<close>

definition ex_r1_alt :: token where
  "ex_r1_alt = JWS ''HS256'' ex_payload
                 (Mac (prepare_key ''HS256'' ''s3cret'') ''HS256'' ex_payload) 1"


lemmas ex_defs = ex_auth_def ex_user_def ex_t0_def ex_r1_def ex_a1_def ex_db1_def ex_forged_def
  ex_r2_def ex_out_def ex_db2_def ex_email_token_def ex_payload_def ex_r1_alt_def

lemmas eval_defs = create_access_token_def create_refresh_token_def create_email_token_def
  jwt_encode_def jwt_decode_def intdate_def validate_claims_def validate_iat_def
  validate_exp_def validate_sub_def timegm_def timedelta_days_def timedelta_minutes_def
  timedelta_seconds_def decode_refresh_token_def get_current_user_def credentials_exception_def
  get_email_from_token_def get_user_by_email_def update_token_def users_confirm_email_def
  verify_password_def login_def refresh_token_def confirm_email_def Let_def
  is_JWTError_def py_int_def

section \<open>Properties of the library model and of the store\<close>

lemma ex_keys_differ [simp]:
  "prepare_key ''HS256'' ''other'' \<noteq> prepare_key ''HS256'' ''s3cret''"
  by (simp add: prepare_key_def hmac_block_size_def)


lemma intdate_fst: "fst (intdate kv) = fst kv"
  by (cases kv) (simp add: intdate_def split: pyval.split)

lemma map_of_map_intdate:
  "map_of (map intdate xs) k = map_option (\<lambda>v. snd (intdate (k, v))) (map_of xs k)"
proof (induction xs)
  case Nil
  show ?case by simp
next
  case (Cons kv xs)
  obtain a b where kv: "kv = (a, b)" by (cases kv)
  have f: "fst (intdate (a, b)) = a" using intdate_fst [of "(a, b)"] by simp
  show ?case
  proof (cases "a = k")
    case True
    then show ?thesis using f kv by (cases "intdate (a, b)") simp
  next
    case False
    then show ?thesis using f kv Cons.IH by (cases "intdate (a, b)") simp
  qed
qed

lemma intdate_PStr: "intdate (k, PStr s) = (k, PStr s)"
  by (simp add: intdate_def)

lemma jwt_decode_encode:
  "jwt_decode (jwt_encode c key alg) key [alg] now =
     (case validate_claims (map intdate c) now of Some e \<Rightarrow> Inl e | None \<Rightarrow> Inr (map intdate c))"
  by (simp add: jwt_decode_def jwt_encode_def)

lemma jwt_decode_InrD:
  assumes "jwt_decode t key algs now = Inr p"
  shows "\<exists>alg v. t = JWS alg p (Mac (prepare_key alg key) alg p) v \<and> alg \<in> set algs
           \<and> validate_claims p now = None"
  using assms
  by (cases t) (auto simp: jwt_decode_def split: if_splits option.splits)

lemma validate_exp_cases:
  "validate_exp p now = None \<Longrightarrow> validate_exp p now' = None \<or> validate_exp p now' = Some ExpiredSignatureError"
  by (auto simp: validate_exp_def split: option.splits sum.splits exn.splits if_splits)

lemma validate_claims_later:
  "validate_claims p now = None \<Longrightarrow>
   validate_claims p now' = None \<or> validate_claims p now' = Some ExpiredSignatureError"
  using validate_exp_cases [of p now now']
  by (auto simp: validate_claims_def split: option.splits)

lemma jwt_decode_later:
  assumes "jwt_decode t key algs now = Inr p"
  shows "jwt_decode t key algs now' = Inr p \<or> jwt_decode t key algs now' = Inl ExpiredSignatureError"
proof -
  from jwt_decode_InrD [OF assms] obtain alg v where
    t: "t = JWS alg p (Mac (prepare_key alg key) alg p) v" and a: "alg \<in> set algs"
    and v: "validate_claims p now = None"
    by blast
  from validate_claims_later [OF v, of now'] show ?thesis
    using t a by (auto simp: jwt_decode_def)
qed

lemma find_map_same:
  assumes "\<And>x. P (f x) = P x"
  shows "find P (map f xs) = map_option f (find P xs)"
  using assms by (induction xs) auto

lemma get_user_by_email_email:
  "get_user_by_email e db = Some u \<Longrightarrow> e = PStr (user_email u)"
  by (auto simp: get_user_by_email_def find_Some_iff)

lemma get_user_by_email_update_token:
  assumes "get_user_by_email e db = Some u"
  shows "get_user_by_email e (update_token u tok db) = Some (u\<lparr>user_refresh_token := tok\<rparr>)"
proof -
  have "find (\<lambda>row. PStr (user_email row) = e)
          (map (\<lambda>row. if user_id row = user_id u then row\<lparr>user_refresh_token := tok\<rparr> else row) db)
        = map_option (\<lambda>row. if user_id row = user_id u then row\<lparr>user_refresh_token := tok\<rparr> else row)
            (find (\<lambda>row. PStr (user_email row) = e) db)"
    by (rule find_map_same) simp
  then show ?thesis using assms by (simp add: get_user_by_email_def update_token_def)
qed

lemma create_access_token_sub:
  "create_access_token self [(''sub'', PStr s)] None now =
     jwt_encode [(''sub'', PStr s), (''iat'', PDatetime now),
                 (''exp'', PDatetime (now + timedelta_minutes 15)),
                 (''scope'', PStr ''access_token'')] (SECRET_KEY self) (ALGORITHM self)"
  by (simp add: create_access_token_def)

lemma create_refresh_token_sub:
  "create_refresh_token self [(''sub'', v)] None now =
     jwt_encode [(''sub'', v), (''iat'', PDatetime now),
                 (''exp'', PDatetime (now + timedelta_days 7)),
                 (''scope'', PStr ''refresh_token'')] (SECRET_KEY self) (ALGORITHM self)"
  by (simp add: create_refresh_token_def)

lemma timegm_mono: "a \<le> b \<Longrightarrow> timegm a \<le> timegm b"
  by (simp add: timegm_def zdiv_mono1)

lemma decode_fresh_access:
  assumes "now' \<le> now + timedelta_minutes 15"
  shows "jwt_decode (create_access_token self [(''sub'', PStr s)] None now)
           (SECRET_KEY self) [ALGORITHM self] now' =
         Inr [(''sub'', PStr s), (''iat'', PInt (timegm now)),
              (''exp'', PInt (timegm (now + timedelta_minutes 15))),
              (''scope'', PStr ''access_token'')]"
  using timegm_mono [OF assms]
  by (simp add: create_access_token_sub jwt_decode_encode intdate_def validate_claims_def
      validate_iat_def validate_exp_def validate_sub_def py_int_def)

lemma decode_fresh_refresh:
  assumes "now' \<le> now + timedelta_days 7"
  shows "jwt_decode (create_refresh_token self [(''sub'', PStr s)] None now)
           (SECRET_KEY self) [ALGORITHM self] now' =
         Inr [(''sub'', PStr s), (''iat'', PInt (timegm now)),
              (''exp'', PInt (timegm (now + timedelta_days 7))),
              (''scope'', PStr ''refresh_token'')]"
  using timegm_mono [OF assms]
  by (simp add: create_refresh_token_sub jwt_decode_encode intdate_def validate_claims_def
      validate_iat_def validate_exp_def validate_sub_def py_int_def)

lemma decode_refresh_token_InrD:
  assumes "decode_refresh_token self t now = Inr email"
  shows "\<exists>p. jwt_decode t (SECRET_KEY self) [ALGORITHM self] now = Inr p
           \<and> map_of p ''scope'' = Some (PStr ''refresh_token'') \<and> map_of p ''sub'' = Some email"
  using assms
  by (auto simp: decode_refresh_token_def split: sum.splits option.splits if_splits)

lemma decode_refresh_token_later:
  assumes "decode_refresh_token self t now = Inr email"
  shows "decode_refresh_token self t now' = Inr email
       \<or> decode_refresh_token self t now' = Inl (HTTPException 401 ''Could not validate credentials'')"
proof -
  from decode_refresh_token_InrD [OF assms] obtain p where
    d: "jwt_decode t (SECRET_KEY self) [ALGORITHM self] now = Inr p"
    and s: "map_of p ''scope'' = Some (PStr ''refresh_token'')"
    and e: "map_of p ''sub'' = Some email" by blast
  from jwt_decode_later [OF d, of now'] show ?thesis
    using s e by (auto simp: decode_refresh_token_def is_JWTError_def)
qed

lemma refresh_token_InrD:
  assumes "refresh_token self r1 db now = (Inr out, db')"
  shows "\<exists>email u. decode_refresh_token self r1 now = Inr email
           \<and> get_user_by_email email db = Some u
           \<and> user_refresh_token u = Some r1
           \<and> tm_refresh_token out = create_refresh_token self [(''sub'', email)] None now
           \<and> db' = update_token u (Some (tm_refresh_token out)) db"
  using assms
  by (auto simp: refresh_token_def Let_def split: sum.splits option.splits if_splits)

lemma scope_of_update:
  "map_of (map intdate (AList.update ''scope'' (PStr x) xs)) ''scope'' = Some (PStr x)"
  by (simp add: map_of_map_intdate update_conv' intdate_PStr)

lemma jwt_decode_encode_InrD:
  "jwt_decode (jwt_encode c key alg) key [alg] now = Inr p \<Longrightarrow> p = map intdate c"
  by (auto simp: jwt_decode_encode split: option.splits)

lemma get_email_from_token_cases:
  assumes "jwt_decode token (SECRET_KEY self) [ALGORITHM self] now = Inr payload"
    and "map_of payload ''sub'' = Some email"
  shows "get_email_from_token self token now' = Inr email
       \<or> get_email_from_token self token now'
            = Inl (HTTPException 422 ''Invalid token for email verification'')"
  using jwt_decode_later [OF assms(1), of now'] assms(2)
  by (auto simp: get_email_from_token_def is_JWTError_def)

lemma confirm_email_confirmed_state:
  assumes "jwt_decode token (SECRET_KEY self) [ALGORITHM self] now = Inr payload"
    and "map_of payload ''sub'' = Some email"
    and "get_user_by_email email db = Some u"
    and "user_confirmed u"
  shows "snd (confirm_email self token db now') = db"
  using get_email_from_token_cases [OF assms(1,2), of now'] assms(3,4)
  by (auto simp: confirm_email_def)

lemma confirm_email_fold:
  assumes "jwt_decode token (SECRET_KEY self) [ALGORITHM self] now = Inr payload"
    and "map_of payload ''sub'' = Some email"
    and "get_user_by_email email db = Some u"
    and "user_confirmed u"
  shows "fold (\<lambda>t d. snd (confirm_email self token d t)) ts db = db"
  by (induction ts) (simp_all add: confirm_email_confirmed_state [OF assms])

lemma jwt_decode_expired:
  assumes "token = JWS alg payload (Mac (prepare_key alg key) alg payload) v"
    and "map_of payload ''iat'' = Some (PInt iat)"
    and "map_of payload ''exp'' = Some (PInt exp)"
    and "exp < timegm now"
  shows "jwt_decode token key [alg] now = Inl ExpiredSignatureError"
  using assms
  by (simp add: jwt_decode_def validate_claims_def validate_iat_def validate_exp_def py_int_def)

lemma decode_failure_errors:
  assumes "jwt_decode t (SECRET_KEY self) [ALGORITHM self] now = Inl e"
    and "is_JWTError e"
  shows "decode_refresh_token self t now
           = Inl (HTTPException 401 ''Could not validate credentials'')"
    and "get_current_user self t db now
           = Inl (HTTPException 401 ''Could not validate credentials'')"
  using assms
  by (simp_all add: decode_refresh_token_def get_current_user_def credentials_exception_def)

lemma py_int_Inl_cases:
  "py_int x = Inl e \<Longrightarrow> (\<exists>m. e = ValueError m) \<or> (\<exists>m. e = TypeError m)"
  by (auto simp: py_int_def split: pyval.splits option.splits)

lemma validate_claims_Some_cases:
  assumes "validate_claims p now = Some e"
  shows "is_JWTError e \<or> (\<exists>m. e = TypeError m)"
proof -
  have i: "validate_iat p = Some e \<Longrightarrow> is_JWTError e \<or> (\<exists>m. e = TypeError m)"
    by (auto simp: validate_iat_def is_JWTError_def
        split: option.splits sum.splits exn.splits dest: py_int_Inl_cases)
  have x: "validate_exp p now = Some e \<Longrightarrow> is_JWTError e \<or> (\<exists>m. e = TypeError m)"
    by (auto simp: validate_exp_def is_JWTError_def
        split: option.splits sum.splits exn.splits if_splits dest: py_int_Inl_cases)
  have s: "validate_sub p = Some e \<Longrightarrow> is_JWTError e"
    by (auto simp: validate_sub_def is_JWTError_def split: option.splits pyval.splits)
  from assms i x s show ?thesis
    by (auto simp: validate_claims_def split: option.splits)
qed

lemma jwt_decode_Inl_cases:
  assumes "jwt_decode t key algs now = Inl e"
  shows "is_JWTError e \<or> (\<exists>m. e = TypeError m)"
proof (cases t)
  case (Garbage s)
  with assms show ?thesis by (auto simp: jwt_decode_def is_JWTError_def)
next
  case (JWS alg p sg v)
  with assms validate_claims_Some_cases [of p now e] show ?thesis
    by (auto simp: jwt_decode_def is_JWTError_def split: if_splits option.splits)
qed

lemma jwt_decode_other_key:
  assumes "prepare_key alg key \<noteq> prepare_key alg (SECRET_KEY self)"
  shows "\<exists>msg. jwt_decode (jwt_encode claims key alg) (SECRET_KEY self) [ALGORITHM self] now
           = Inl (JWTError msg)"
  using assms by (auto simp: jwt_decode_def jwt_encode_def)


section \<open>Refresh rotation\<close>

text \<open>
  A login and a refresh in the same clock second issue the same refresh token: the
  claims hold whole seconds and the signature is a function of key and claims. The
  refresh below returns the token it was given, stores it again, and a second refresh
  with that token succeeds.
\<close>

theorem refresh_same_second_counterexample:
  "login ex_auth ''a@example.com'' ''pw'' [ex_user] ex_t0
     = (Inr \<lparr>tm_access_token = ex_a1, tm_refresh_token = ex_r1, tm_token_type = ''bearer''\<rparr>,
        ex_db1)
   \<and> refresh_token ex_auth ex_r1 ex_db1 (ex_t0 + 500000)
     = (Inr \<lparr>tm_access_token = create_access_token ex_auth [(''sub'', PStr ''a@example.com'')]
                                 None (ex_t0 + 500000),
             tm_refresh_token = ex_r1, tm_token_type = ''bearer''\<rparr>,
        ex_db1)
   \<and> fst (refresh_token ex_auth ex_r1 ex_db1 (ex_t0 + 800000))
     = Inr \<lparr>tm_access_token = create_access_token ex_auth [(''sub'', PStr ''a@example.com'')]
                                 None (ex_t0 + 800000),
            tm_refresh_token = ex_r1, tm_token_type = ''bearer''\<rparr>"
  by (simp add: ex_defs eval_defs)

text \<open>
  C1 (amended). If \<open>Refresh(r1)\<close> succeeds and returns a refresh token \<open>r2\<close> different
  from \<open>r1\<close>, then \<open>r2\<close> is the stored refresh token of the account that \<open>r1\<close> names, and a
  subsequent \<open>Refresh(r1)\<close> on the resulting state fails with status 401, at whatever
  time it is made: with "Invalid refresh token", or with "Could not validate
  credentials" when \<open>r1\<close> has expired meanwhile.
\<close>

theorem refresh_rotation:
  assumes "refresh_token self r1 db now = (Inr out, db')"
    and "tm_refresh_token out \<noteq> r1"
  shows "(\<exists>email u. decode_refresh_token self r1 now = Inr email
            \<and> get_user_by_email email db' = Some u
            \<and> user_refresh_token u = Some (tm_refresh_token out))
       \<and> (fst (refresh_token self r1 db' now') = Inl (HTTPException 401 ''Invalid refresh token'')
          \<or> fst (refresh_token self r1 db' now')
               = Inl (HTTPException 401 ''Could not validate credentials''))"
proof -
  from refresh_token_InrD [OF assms(1)] obtain email u where
    d: "decode_refresh_token self r1 now = Inr email"
    and g: "get_user_by_email email db = Some u"
    and db': "db' = update_token u (Some (tm_refresh_token out)) db" by blast
  have g': "get_user_by_email email db' = Some (u\<lparr>user_refresh_token := Some (tm_refresh_token out)\<rparr>)"
    using get_user_by_email_update_token [OF g] db' by simp
  with d have stored: "\<exists>email u. decode_refresh_token self r1 now = Inr email
            \<and> get_user_by_email email db' = Some u
            \<and> user_refresh_token u = Some (tm_refresh_token out)"
    by (intro exI [of _ email] exI [of _ "u\<lparr>user_refresh_token := Some (tm_refresh_token out)\<rparr>"]) simp
  from decode_refresh_token_later [OF d, of now']
  have "fst (refresh_token self r1 db' now') = Inl (HTTPException 401 ''Invalid refresh token'')
          \<or> fst (refresh_token self r1 db' now')
               = Inl (HTTPException 401 ''Could not validate credentials'')"
  proof
    assume "decode_refresh_token self r1 now' = Inr email"
    then show ?thesis using g' assms(2) by (simp add: refresh_token_def)
  next
    assume "decode_refresh_token self r1 now' = Inl (HTTPException 401 ''Could not validate credentials'')"
    then show ?thesis by (simp add: refresh_token_def)
  qed
  with stored show ?thesis by simp
qed

theorem refresh_rotation_witness:
  "refresh_token ex_auth ex_r1 ex_db1 (ex_t0 + 5000000) = (Inr ex_out, ex_db2)
   \<and> tm_refresh_token ex_out \<noteq> ex_r1
   \<and> get_user_by_email (PStr ''a@example.com'') ex_db2
       = Some (ex_user\<lparr>user_refresh_token := Some ex_r2\<rparr>)
   \<and> fst (refresh_token ex_auth ex_r1 ex_db2 (ex_t0 + 6000000))
       = Inl (HTTPException 401 ''Invalid refresh token'')"
proof -
  have h1: "refresh_token ex_auth ex_r1 ex_db1 (ex_t0 + 5000000) = (Inr ex_out, ex_db2)"
    by (simp add: ex_defs eval_defs)
  have h2: "tm_refresh_token ex_out \<noteq> ex_r1"
    by (simp add: ex_defs eval_defs)
  have h3: "fst (refresh_token ex_auth ex_r1 ex_db2 (ex_t0 + 6000000))
       \<noteq> Inl (HTTPException 401 ''Could not validate credentials'')"
    by (simp add: ex_defs eval_defs)
  have h4: "get_user_by_email (PStr ''a@example.com'') ex_db2
       = Some (ex_user\<lparr>user_refresh_token := Some ex_r2\<rparr>)"
    by (simp add: ex_defs eval_defs)
  from refresh_rotation [OF h1 h2, of "ex_t0 + 6000000"] h3
  have "fst (refresh_token ex_auth ex_r1 ex_db2 (ex_t0 + 6000000))
       = Inl (HTTPException 401 ''Invalid refresh token'')" by blast
  with h1 h2 h4 show ?thesis by blast
qed


section \<open>Expired tokens\<close>

text \<open>
  A refresh token and an access token, both valid when issued, are presented eight days
  later; a token signed with another secret is presented at the same time. The library
  raises different exceptions, the two operations report the same error for both.
\<close>

theorem expired_not_distinct_counterexample:
  "decode_refresh_token ex_auth ex_r1 ex_t0 = Inr (PStr ''a@example.com'')
   \<and> jwt_decode ex_r1 (SECRET_KEY ex_auth) [ALGORITHM ex_auth] (ex_t0 + timedelta_days 8)
       = Inl ExpiredSignatureError
   \<and> jwt_decode ex_forged (SECRET_KEY ex_auth) [ALGORITHM ex_auth] (ex_t0 + timedelta_days 8)
       = Inl (JWTError ''Signature verification failed.'')
   \<and> decode_refresh_token ex_auth ex_r1 (ex_t0 + timedelta_days 8)
       = decode_refresh_token ex_auth ex_forged (ex_t0 + timedelta_days 8)
   \<and> get_current_user ex_auth ex_a1 [ex_user] ex_t0 = Inr ex_user
   \<and> get_current_user ex_auth ex_a1 [ex_user] (ex_t0 + timedelta_days 8)
       = get_current_user ex_auth ex_forged [ex_user] (ex_t0 + timedelta_days 8)"
  by (simp add: ex_defs eval_defs)

text \<open>
  C2 (amended). A correctly signed token with integer \<open>iat\<close> and \<open>exp\<close> claims is rejected by
  both the refresh verification and the access verification when the clock, truncated
  to whole seconds, is greater than \<open>exp\<close> (\<open>exp < timegm now\<close>). The error is HTTP 401
  "Could not validate credentials", the same error that both operations report for a
  token signed with a secret that HMAC prepares to a different key (both secrets no
  longer than the block of the hash).
\<close>

theorem expired_token_error:
  assumes "token = JWS (ALGORITHM self) payload
             (Mac (prepare_key (ALGORITHM self) (SECRET_KEY self)) (ALGORITHM self) payload) v"
    and "map_of payload ''iat'' = Some (PInt iat)"
    and "map_of payload ''exp'' = Some (PInt exp)"
    and "exp < timegm now"
  shows "decode_refresh_token self token now
           = Inl (HTTPException 401 ''Could not validate credentials'')
       \<and> get_current_user self token db now
           = Inl (HTTPException 401 ''Could not validate credentials'')
       \<and> (length key \<le> hmac_block_size (ALGORITHM self)
            \<and> length (SECRET_KEY self) \<le> hmac_block_size (ALGORITHM self)
            \<and> prepare_key (ALGORITHM self) key \<noteq> prepare_key (ALGORITHM self) (SECRET_KEY self)
            \<longrightarrow>
            decode_refresh_token self (jwt_encode claims key (ALGORITHM self)) now
              = decode_refresh_token self token now
          \<and> get_current_user self (jwt_encode claims key (ALGORITHM self)) db now
              = get_current_user self token db now)"
proof -
  have d: "jwt_decode token (SECRET_KEY self) [ALGORITHM self] now = Inl ExpiredSignatureError"
    by (rule jwt_decode_expired [OF assms])
  have x: "is_JWTError ExpiredSignatureError"
    by (simp add: is_JWTError_def)
  have f: "decode_refresh_token self (jwt_encode claims key (ALGORITHM self)) now
              = Inl (HTTPException 401 ''Could not validate credentials'')
          \<and> get_current_user self (jwt_encode claims key (ALGORITHM self)) db now
              = Inl (HTTPException 401 ''Could not validate credentials'')"
    if k: "prepare_key (ALGORITHM self) key \<noteq> prepare_key (ALGORITHM self) (SECRET_KEY self)"
  proof -
    from jwt_decode_other_key [OF k, of claims now] obtain msg where
      m: "jwt_decode (jwt_encode claims key (ALGORITHM self)) (SECRET_KEY self)
            [ALGORITHM self] now = Inl (JWTError msg)" by blast
    have j: "is_JWTError (JWTError msg)" by (simp add: is_JWTError_def)
    show ?thesis
      using decode_failure_errors(1) [OF m j] decode_failure_errors(2) [OF m j, of db] by simp
  qed
  show ?thesis
    using decode_failure_errors(1) [OF d x] decode_failure_errors(2) [OF d x, of db] f by simp
qed

theorem expired_token_error_witness:
  "ex_r1 = JWS (ALGORITHM ex_auth) ex_payload
             (Mac (prepare_key (ALGORITHM ex_auth) (SECRET_KEY ex_auth)) (ALGORITHM ex_auth)
                ex_payload) 0
   \<and> map_of ex_payload ''iat'' = Some (PInt 1700000000)
   \<and> map_of ex_payload ''exp'' = Some (PInt 1700604800)
   \<and> (1700604800::int) < timegm (ex_t0 + timedelta_days 8)
   \<and> length ''other'' \<le> hmac_block_size (ALGORITHM ex_auth)
   \<and> length (SECRET_KEY ex_auth) \<le> hmac_block_size (ALGORITHM ex_auth)
   \<and> prepare_key (ALGORITHM ex_auth) ''other'' \<noteq> prepare_key (ALGORITHM ex_auth) (SECRET_KEY ex_auth)
   \<and> decode_refresh_token ex_auth ex_r1 (ex_t0 + timedelta_days 8)
       = Inl (HTTPException 401 ''Could not validate credentials'')
   \<and> get_current_user ex_auth ex_r1 ex_db1 (ex_t0 + timedelta_days 8)
       = Inl (HTTPException 401 ''Could not validate credentials'')
   \<and> decode_refresh_token ex_auth (jwt_encode ex_payload ''other'' (ALGORITHM ex_auth))
         (ex_t0 + timedelta_days 8)
       = decode_refresh_token ex_auth ex_r1 (ex_t0 + timedelta_days 8)"
proof -
  have h1: "ex_r1 = JWS (ALGORITHM ex_auth) ex_payload
             (Mac (prepare_key (ALGORITHM ex_auth) (SECRET_KEY ex_auth)) (ALGORITHM ex_auth)
                ex_payload) 0"
    by (simp add: ex_defs eval_defs)
  have h2: "map_of ex_payload ''iat'' = Some (PInt 1700000000)"
    by (simp add: ex_payload_def)
  have h3: "map_of ex_payload ''exp'' = Some (PInt 1700604800)"
    by (simp add: ex_payload_def)
  have h4: "(1700604800::int) < timegm (ex_t0 + timedelta_days 8)"
    by (simp add: ex_defs eval_defs)
  have h5: "length ''other'' \<le> hmac_block_size (ALGORITHM ex_auth)
      \<and> length (SECRET_KEY ex_auth) \<le> hmac_block_size (ALGORITHM ex_auth)
      \<and> prepare_key (ALGORITHM ex_auth) ''other''
          \<noteq> prepare_key (ALGORITHM ex_auth) (SECRET_KEY ex_auth)"
    by (simp add: ex_auth_def hmac_block_size_def)
  from expired_token_error [OF h1 h2 h3 h4, of ex_db1 "''other''" ex_payload] h1 h2 h3 h4 h5
  show ?thesis by blast
qed


section \<open>Signature failure comes first\<close>





section \<open>Wrong purpose\<close>

text \<open>
  On the access side a wrong purpose is not a kind of its own: a valid, unexpired
  refresh token gets from \<open>get_current_user\<close> the very error that a token signed with
  another secret, a string that is no token, and an expired access token get.
\<close>

theorem wrong_purpose_access_counterexample:
  "jwt_decode ex_r1 (SECRET_KEY ex_auth) [ALGORITHM ex_auth] (ex_t0 + 5000000) = Inr ex_payload
   \<and> get_current_user ex_auth ex_r1 [ex_user] (ex_t0 + 5000000)
       = get_current_user ex_auth ex_forged [ex_user] (ex_t0 + 5000000)
   \<and> get_current_user ex_auth ex_r1 [ex_user] (ex_t0 + 5000000)
       = get_current_user ex_auth (Garbage ''x'') [ex_user] (ex_t0 + 5000000)
   \<and> get_current_user ex_auth ex_r1 [ex_user] (ex_t0 + 5000000)
       = get_current_user ex_auth ex_a1 [ex_user] (ex_t0 + timedelta_days 8)"
  by (simp add: ex_defs eval_defs)

text \<open>
  C4 (amended). A token issued by \<open>create_refresh_token\<close> that decodes successfully
  (correctly signed, not expired) fails the access verification with HTTP 401 "Could
  not validate credentials", which is the error the access verification also reports
  for a string that is no token: the access side has no error of its own for a wrong
  purpose. A token issued by \<open>create_access_token\<close> that decodes successfully fails the
  refresh verification with the distinct HTTP 401 "Invalid scope for token". This holds
  for every subject (every dictionary \<open>data\<close>) and every lifetime.
\<close>

theorem wrong_purpose_rejected:
  "(jwt_decode (create_refresh_token self data expires_delta now) (SECRET_KEY self)
        [ALGORITHM self] now' = Inr p \<longrightarrow>
      get_current_user self (create_refresh_token self data expires_delta now) db now'
        = Inl (HTTPException 401 ''Could not validate credentials'')
      \<and> get_current_user self (create_refresh_token self data expires_delta now) db now'
        = get_current_user self (Garbage g) db now')
   \<and> (jwt_decode (create_access_token self data expires_delta now) (SECRET_KEY self)
        [ALGORITHM self] now' = Inr p \<longrightarrow>
      decode_refresh_token self (create_access_token self data expires_delta now) now'
        = Inl (HTTPException 401 ''Invalid scope for token''))"
proof (intro conjI impI)
  assume d: "jwt_decode (create_refresh_token self data expires_delta now) (SECRET_KEY self)
        [ALGORITHM self] now' = Inr p"
  have "map_of p ''scope'' = Some (PStr ''refresh_token'')"
    using jwt_decode_encode_InrD [OF d [unfolded create_refresh_token_def Let_def]]
    by (simp only: scope_of_update)
  then show r: "get_current_user self (create_refresh_token self data expires_delta now) db now'
        = Inl (HTTPException 401 ''Could not validate credentials'')"
    using d by (simp add: get_current_user_def credentials_exception_def)
  have "get_current_user self (Garbage g) db now'
        = Inl (HTTPException 401 ''Could not validate credentials'')"
    by (simp add: get_current_user_def credentials_exception_def jwt_decode_def is_JWTError_def)
  with r show "get_current_user self (create_refresh_token self data expires_delta now) db now'
        = get_current_user self (Garbage g) db now'" by simp
next
  assume d: "jwt_decode (create_access_token self data expires_delta now) (SECRET_KEY self)
        [ALGORITHM self] now' = Inr p"
  have "map_of p ''scope'' = Some (PStr ''access_token'')"
    using jwt_decode_encode_InrD [OF d [unfolded create_access_token_def Let_def]]
    by (simp only: scope_of_update)
  then show "decode_refresh_token self (create_access_token self data expires_delta now) now'
        = Inl (HTTPException 401 ''Invalid scope for token'')"
    using d by (simp add: decode_refresh_token_def)
qed

theorem wrong_purpose_rejected_witness:
  "jwt_decode (create_refresh_token ex_auth [(''sub'', PStr ''a@example.com'')] None ex_t0)
       (SECRET_KEY ex_auth) [ALGORITHM ex_auth] (ex_t0 + 5000000) = Inr ex_payload
   \<and> get_current_user ex_auth
       (create_refresh_token ex_auth [(''sub'', PStr ''a@example.com'')] None ex_t0)
       [ex_user] (ex_t0 + 5000000)
       = Inl (HTTPException 401 ''Could not validate credentials'')
   \<and> jwt_decode (create_access_token ex_auth [(''sub'', PStr ''a@example.com'')] None ex_t0)
       (SECRET_KEY ex_auth) [ALGORITHM ex_auth] (ex_t0 + 5000000)
       = Inr [(''sub'', PStr ''a@example.com''), (''iat'', PInt 1700000000),
              (''exp'', PInt 1700000900), (''scope'', PStr ''access_token'')]
   \<and> decode_refresh_token ex_auth
       (create_access_token ex_auth [(''sub'', PStr ''a@example.com'')] None ex_t0)
       (ex_t0 + 5000000)
       = Inl (HTTPException 401 ''Invalid scope for token'')"
proof -
  have h1: "jwt_decode (create_refresh_token ex_auth [(''sub'', PStr ''a@example.com'')] None ex_t0)
       (SECRET_KEY ex_auth) [ALGORITHM ex_auth] (ex_t0 + 5000000) = Inr ex_payload"
    by (simp add: ex_defs eval_defs)
  have h2: "jwt_decode (create_access_token ex_auth [(''sub'', PStr ''a@example.com'')] None ex_t0)
       (SECRET_KEY ex_auth) [ALGORITHM ex_auth] (ex_t0 + 5000000)
       = Inr [(''sub'', PStr ''a@example.com''), (''iat'', PInt 1700000000),
              (''exp'', PInt 1700000900), (''scope'', PStr ''access_token'')]"
    by (simp add: ex_defs eval_defs)
  from wrong_purpose_rejected [of ex_auth "[(''sub'', PStr ''a@example.com'')]" None ex_t0
      "ex_t0 + 5000000" ex_payload "[ex_user]" "''x''"]
    wrong_purpose_rejected [of ex_auth "[(''sub'', PStr ''a@example.com'')]" None ex_t0
      "ex_t0 + 5000000" "[(''sub'', PStr ''a@example.com''), (''iat'', PInt 1700000000),
              (''exp'', PInt 1700000900), (''scope'', PStr ''access_token'')]" "[ex_user]" "''x''"]
    h1 h2
  show ?thesis by blast
qed

section \<open>Round trip of the access token\<close>

text \<open>
  C5. For every subject \<open>s\<close> whose email is in the user store, the access token issued for
  \<open>s\<close> with the default lifetime, verified before the 15 minutes have elapsed, is accepted
  by the access verification, which resolves it to the account whose email is \<open>s\<close>.
\<close>

theorem access_token_round_trip:
  assumes "get_user_by_email (PStr s) db = Some u"
    and "now' \<le> now + timedelta_minutes 15"
  shows "get_current_user self (create_access_token self [(''sub'', PStr s)] None now) db now'
           = Inr u \<and> user_email u = s"
proof -
  have "user_email u = s"
    using get_user_by_email_email [OF assms(1)] by simp
  moreover have "get_current_user self (create_access_token self [(''sub'', PStr s)] None now)
      db now' = Inr u"
    using assms(1) by (simp add: get_current_user_def decode_fresh_access [OF assms(2)])
  ultimately show ?thesis by simp
qed

theorem access_token_round_trip_witness:
  "get_user_by_email (PStr ''a@example.com'') [ex_user] = Some ex_user
   \<and> ex_t0 + 5000000 \<le> ex_t0 + timedelta_minutes 15
   \<and> get_current_user ex_auth
        (create_access_token ex_auth [(''sub'', PStr ''a@example.com'')] None ex_t0)
        [ex_user] (ex_t0 + 5000000) = Inr ex_user
   \<and> user_email ex_user = ''a@example.com''"
proof -
  have h1: "get_user_by_email (PStr ''a@example.com'') [ex_user] = Some ex_user"
    by (simp add: get_user_by_email_def ex_user_def)
  have h2: "ex_t0 + 5000000 \<le> ex_t0 + timedelta_minutes 15"
    by (simp add: timedelta_minutes_def)
  show ?thesis
    using h1 h2 access_token_round_trip [OF h1 h2, of ex_auth] by simp
qed


section \<open>Stale refresh tokens\<close>

text \<open>
  C6. For every account and every token that decodes successfully (correctly signed, not
  expired) with scope \<open>refresh_token\<close> and whose subject resolves to the account: if the
  stored refresh token of the account is not exactly the presented token, \<open>Refresh\<close> fails
  with 401 "Invalid refresh token", and in the resulting state the stored refresh token
  of the account is \<open>None\<close>.
\<close>

theorem refresh_mismatch_clears:
  assumes "jwt_decode token (SECRET_KEY self) [ALGORITHM self] now = Inr payload"
    and "map_of payload ''scope'' = Some (PStr ''refresh_token'')"
    and "map_of payload ''sub'' = Some email"
    and "get_user_by_email email db = Some u"
    and "user_refresh_token u \<noteq> Some token"
  shows "fst (refresh_token self token db now) = Inl (HTTPException 401 ''Invalid refresh token'')
       \<and> get_user_by_email email (snd (refresh_token self token db now))
           = Some (u\<lparr>user_refresh_token := None\<rparr>)"
  using assms get_user_by_email_update_token [OF assms(4), of None]
  by (simp add: refresh_token_def decode_refresh_token_def)

theorem refresh_mismatch_clears_witness:
  "jwt_decode ex_r1 (SECRET_KEY ex_auth) [ALGORITHM ex_auth] (ex_t0 + 6000000) = Inr ex_payload
   \<and> get_user_by_email (PStr ''a@example.com'') ex_db2
       = Some (ex_user\<lparr>user_refresh_token := Some ex_r2\<rparr>)
   \<and> Some ex_r2 \<noteq> Some ex_r1
   \<and> fst (refresh_token ex_auth ex_r1 ex_db2 (ex_t0 + 6000000))
       = Inl (HTTPException 401 ''Invalid refresh token'')
   \<and> get_user_by_email (PStr ''a@example.com'')
       (snd (refresh_token ex_auth ex_r1 ex_db2 (ex_t0 + 6000000))) = Some ex_user"
proof -
  have h1: "jwt_decode ex_r1 (SECRET_KEY ex_auth) [ALGORITHM ex_auth] (ex_t0 + 6000000)
      = Inr ex_payload"
    by (simp add: ex_defs eval_defs)
  have h2: "map_of ex_payload ''scope'' = Some (PStr ''refresh_token'')"
    by (simp add: ex_payload_def)
  have h3: "map_of ex_payload ''sub'' = Some (PStr ''a@example.com'')"
    by (simp add: ex_payload_def)
  have h4: "get_user_by_email (PStr ''a@example.com'') ex_db2
       = Some (ex_user\<lparr>user_refresh_token := Some ex_r2\<rparr>)"
    by (simp add: ex_defs eval_defs)
  have h5: "user_refresh_token (ex_user\<lparr>user_refresh_token := Some ex_r2\<rparr>) \<noteq> Some ex_r1"
    by (simp add: ex_defs eval_defs)
  have h6: "ex_user\<lparr>user_refresh_token := Some ex_r2, user_refresh_token := None\<rparr> = ex_user"
    by (simp add: ex_user_def)
  from refresh_mismatch_clears [OF h1 h2 h3 h4 h5] h1 h4 h5 h6
  show ?thesis by simp
qed


section \<open>Login on an unconfirmed account\<close>

text \<open>
  C7. For every account whose confirmed flag is false and every password, \<open>Login\<close> fails
  with 401 "Email not confirmed" and leaves the store as it is; the 401 "Invalid password"
  outcome occurs only for a confirmed account whose password does not verify.
\<close>

theorem login_unconfirmed:
  "(get_user_by_email (PStr username) db = Some u \<and> \<not> user_confirmed u \<longrightarrow>
      login self username password db now
        = (Inl (HTTPException 401 ''Email not confirmed''), db))
   \<and> (fst (login self username password db now) = Inl (HTTPException 401 ''Invalid password'')
        \<longrightarrow> (\<exists>u. get_user_by_email (PStr username) db = Some u \<and> user_confirmed u
                  \<and> \<not> verify_password self password (user_password u)))"
  by (auto simp: login_def Let_def split: option.splits if_splits)

theorem login_unconfirmed_witness:
  "get_user_by_email (PStr ''a@example.com'') [ex_user\<lparr>user_confirmed := False\<rparr>]
     = Some (ex_user\<lparr>user_confirmed := False\<rparr>)
   \<and> \<not> user_confirmed (ex_user\<lparr>user_confirmed := False\<rparr>)
   \<and> verify_password ex_auth ''pw'' (user_password (ex_user\<lparr>user_confirmed := False\<rparr>))
   \<and> login ex_auth ''a@example.com'' ''pw'' [ex_user\<lparr>user_confirmed := False\<rparr>] ex_t0
       = (Inl (HTTPException 401 ''Email not confirmed''), [ex_user\<lparr>user_confirmed := False\<rparr>])
   \<and> login ex_auth ''a@example.com'' ''bad'' [ex_user\<lparr>user_confirmed := False\<rparr>] ex_t0
       = (Inl (HTTPException 401 ''Email not confirmed''), [ex_user\<lparr>user_confirmed := False\<rparr>])
   \<and> fst (login ex_auth ''a@example.com'' ''bad'' [ex_user] ex_t0)
       = Inl (HTTPException 401 ''Invalid password'')
   \<and> (\<exists>u. get_user_by_email (PStr ''a@example.com'') [ex_user] = Some u \<and> user_confirmed u
          \<and> \<not> verify_password ex_auth ''bad'' (user_password u))"
proof -
  have h1: "get_user_by_email (PStr ''a@example.com'') [ex_user\<lparr>user_confirmed := False\<rparr>]
     = Some (ex_user\<lparr>user_confirmed := False\<rparr>)"
    by (simp add: ex_defs eval_defs)
  have h2: "\<not> user_confirmed (ex_user\<lparr>user_confirmed := False\<rparr>)" by simp
  have h3: "verify_password ex_auth ''pw'' (user_password (ex_user\<lparr>user_confirmed := False\<rparr>))"
    by (simp add: ex_defs eval_defs)
  have h4: "fst (login ex_auth ''a@example.com'' ''bad'' [ex_user] ex_t0)
       = Inl (HTTPException 401 ''Invalid password'')"
    by (simp add: ex_defs eval_defs)
  from login_unconfirmed [of "''a@example.com''" "[ex_user\<lparr>user_confirmed := False\<rparr>]"
      "ex_user\<lparr>user_confirmed := False\<rparr>" ex_auth "''pw''" ex_t0]
    login_unconfirmed [of "''a@example.com''" "[ex_user\<lparr>user_confirmed := False\<rparr>]"
      "ex_user\<lparr>user_confirmed := False\<rparr>" ex_auth "''bad''" ex_t0]
    login_unconfirmed [of "''a@example.com''" "[ex_user]" ex_user ex_auth "''bad''" ex_t0]
    h1 h2 h3 h4
  show ?thesis by blast
qed


section \<open>Confirming a confirmed account\<close>

text \<open>
  C8. For every account whose confirmed flag is already true, \<open>ConfirmEmail\<close> with a
  token that decodes successfully and carries the account's email as subject returns the
  message "Your email is already confirmed" (a response, not an exception) and leaves the
  store unchanged; the state after any non-empty sequence of such calls with this token,
  at whatever times, equals the state after the first of them.
\<close>

theorem confirm_already_confirmed:
  assumes "jwt_decode token (SECRET_KEY self) [ALGORITHM self] now = Inr payload"
    and "map_of payload ''sub'' = Some email"
    and "get_user_by_email email db = Some u"
    and "user_confirmed u"
  shows "confirm_email self token db now = (Inr ''Your email is already confirmed'', db)
       \<and> (\<forall>ts. ts \<noteq> [] \<longrightarrow>
            fold (\<lambda>t d. snd (confirm_email self token d t)) ts db
              = snd (confirm_email self token db (hd ts)))"
proof -
  have "confirm_email self token db now = (Inr ''Your email is already confirmed'', db)"
    using assms by (simp add: confirm_email_def get_email_from_token_def)
  moreover have "fold (\<lambda>t d. snd (confirm_email self token d t)) ts db
              = snd (confirm_email self token db (hd ts))" for ts
    by (simp add: confirm_email_fold [OF assms] confirm_email_confirmed_state [OF assms])
  ultimately show ?thesis by simp
qed

theorem confirm_already_confirmed_witness:
  "jwt_decode ex_email_token (SECRET_KEY ex_auth) [ALGORITHM ex_auth] (ex_t0 + 5000000)
     = Inr [(''sub'', PStr ''a@example.com''), (''iat'', PInt 1700000000),
            (''exp'', PInt 1700604800)]
   \<and> get_user_by_email (PStr ''a@example.com'') [ex_user] = Some ex_user
   \<and> user_confirmed ex_user
   \<and> confirm_email ex_auth ex_email_token [ex_user] (ex_t0 + 5000000)
       = (Inr ''Your email is already confirmed'', [ex_user])
   \<and> fold (\<lambda>t d. snd (confirm_email ex_auth ex_email_token d t))
        [ex_t0 + 6000000, ex_t0 + 7000000, ex_t0 + timedelta_days 9] [ex_user]
       = snd (confirm_email ex_auth ex_email_token [ex_user] (ex_t0 + 6000000))"
proof -
  have h1: "jwt_decode ex_email_token (SECRET_KEY ex_auth) [ALGORITHM ex_auth] (ex_t0 + 5000000)
     = Inr [(''sub'', PStr ''a@example.com''), (''iat'', PInt 1700000000),
            (''exp'', PInt 1700604800)]"
    by (simp add: ex_defs eval_defs)
  have h2: "map_of [(''sub'', PStr ''a@example.com''), (''iat'', PInt 1700000000),
            (''exp'', PInt 1700604800)] ''sub'' = Some (PStr ''a@example.com'')" by simp
  have h3: "get_user_by_email (PStr ''a@example.com'') [ex_user] = Some ex_user"
    by (simp add: ex_defs eval_defs)
  have h4: "user_confirmed ex_user" by (simp add: ex_user_def)
  have h5: "[ex_t0 + 6000000, ex_t0 + 7000000, ex_t0 + timedelta_days 9] \<noteq> []" by simp
  from confirm_already_confirmed [OF h1 h2 h3 h4] h5
  have "confirm_email ex_auth ex_email_token [ex_user] (ex_t0 + 5000000)
       = (Inr ''Your email is already confirmed'', [ex_user])
   \<and> fold (\<lambda>t d. snd (confirm_email ex_auth ex_email_token d t))
        [ex_t0 + 6000000, ex_t0 + 7000000, ex_t0 + timedelta_days 9] [ex_user]
       = snd (confirm_email ex_auth ex_email_token [ex_user]
               (hd [ex_t0 + 6000000, ex_t0 + 7000000, ex_t0 + timedelta_days 9]))"
    by blast
  with h1 h3 h4 show ?thesis by simp
qed


section \<open>Email tokens carry no purpose\<close>

text \<open>
  C9. \<open>get_email_from_token\<close> checks no purpose: for every token that decodes successfully
  and carries a \<open>sub\<close> claim it returns the value of \<open>sub\<close>; in particular an access token
  and a refresh token issued for subject \<open>s\<close> are accepted, within their lifetime, as
  email-verification tokens for \<open>s\<close>. It fails with its 422 error exactly when the
  decoding of the token fails with a \<open>JWTError\<close> (bad signature, malformed structure,
  expiry or an invalid claim).
\<close>

theorem email_token_no_purpose_check:
  "(jwt_decode token (SECRET_KEY self) [ALGORITHM self] now' = Inr payload
      \<and> map_of payload ''sub'' = Some email \<longrightarrow>
      get_email_from_token self token now' = Inr email)
   \<and> (now' \<le> now + timedelta_minutes 15 \<longrightarrow>
        get_email_from_token self (create_access_token self [(''sub'', PStr s)] None now) now'
          = Inr (PStr s))
   \<and> (now' \<le> now + timedelta_days 7 \<longrightarrow>
        get_email_from_token self (create_refresh_token self [(''sub'', PStr s)] None now) now'
          = Inr (PStr s))
   \<and> (get_email_from_token self token now'
          = Inl (HTTPException 422 ''Invalid token for email verification'')
        \<longleftrightarrow> (\<exists>e. jwt_decode token (SECRET_KEY self) [ALGORITHM self] now' = Inl e
                 \<and> is_JWTError e))"
proof (intro conjI impI)
  assume "jwt_decode token (SECRET_KEY self) [ALGORITHM self] now' = Inr payload
      \<and> map_of payload ''sub'' = Some email"
  then show "get_email_from_token self token now' = Inr email"
    by (simp add: get_email_from_token_def)
next
  assume "now' \<le> now + timedelta_minutes 15"
  then show "get_email_from_token self (create_access_token self [(''sub'', PStr s)] None now) now'
          = Inr (PStr s)"
    by (simp add: get_email_from_token_def decode_fresh_access)
next
  assume "now' \<le> now + timedelta_days 7"
  then show "get_email_from_token self (create_refresh_token self [(''sub'', PStr s)] None now) now'
          = Inr (PStr s)"
    by (simp add: get_email_from_token_def decode_fresh_refresh)
next
  show "get_email_from_token self token now'
          = Inl (HTTPException 422 ''Invalid token for email verification'')
        \<longleftrightarrow> (\<exists>e. jwt_decode token (SECRET_KEY self) [ALGORITHM self] now' = Inl e
                 \<and> is_JWTError e)"
  proof
    assume r: "get_email_from_token self token now'
          = Inl (HTTPException 422 ''Invalid token for email verification'')"
    show "\<exists>e. jwt_decode token (SECRET_KEY self) [ALGORITHM self] now' = Inl e \<and> is_JWTError e"
    proof (cases "jwt_decode token (SECRET_KEY self) [ALGORITHM self] now'")
      case (Inl e)
      from jwt_decode_Inl_cases [OF Inl] r Inl show ?thesis
        by (auto simp: get_email_from_token_def split: if_splits)
    next
      case (Inr payload)
      with r show ?thesis
        by (auto simp: get_email_from_token_def split: option.splits)
    qed
  next
    assume "\<exists>e. jwt_decode token (SECRET_KEY self) [ALGORITHM self] now' = Inl e \<and> is_JWTError e"
    then show "get_email_from_token self token now'
          = Inl (HTTPException 422 ''Invalid token for email verification'')"
      by (auto simp: get_email_from_token_def)
  qed
qed

theorem email_token_no_purpose_check_witness:
  "jwt_decode ex_r1 (SECRET_KEY ex_auth) [ALGORITHM ex_auth] (ex_t0 + 5000000) = Inr ex_payload
   \<and> get_email_from_token ex_auth ex_r1 (ex_t0 + 5000000) = Inr (PStr ''a@example.com'')
   \<and> ex_t0 + 5000000 \<le> ex_t0 + timedelta_minutes 15
   \<and> get_email_from_token ex_auth ex_a1 (ex_t0 + 5000000) = Inr (PStr ''a@example.com'')
   \<and> jwt_decode ex_forged (SECRET_KEY ex_auth) [ALGORITHM ex_auth] (ex_t0 + 5000000)
       = Inl (JWTError ''Signature verification failed.'')
   \<and> get_email_from_token ex_auth ex_forged (ex_t0 + 5000000)
       = Inl (HTTPException 422 ''Invalid token for email verification'')"
proof -
  have h1: "jwt_decode ex_r1 (SECRET_KEY ex_auth) [ALGORITHM ex_auth] (ex_t0 + 5000000)
     = Inr ex_payload"
    by (simp add: ex_defs eval_defs)
  have h2: "map_of ex_payload ''sub'' = Some (PStr ''a@example.com'')"
    by (simp add: ex_payload_def)
  have h3: "ex_t0 + 5000000 \<le> ex_t0 + timedelta_minutes 15"
    by (simp add: timedelta_minutes_def)
  have h4: "jwt_decode ex_forged (SECRET_KEY ex_auth) [ALGORITHM ex_auth] (ex_t0 + 5000000)
       = Inl (JWTError ''Signature verification failed.'')"
    by (simp add: ex_defs eval_defs)
  have h5: "is_JWTError (JWTError ''Signature verification failed.'')"
    by (simp add: is_JWTError_def)
  have a: "get_email_from_token ex_auth ex_r1 (ex_t0 + 5000000) = Inr (PStr ''a@example.com'')"
    using email_token_no_purpose_check
      [of ex_r1 ex_auth "ex_t0 + 5000000" ex_payload "PStr ''a@example.com''" ex_t0
        "''a@example.com''"]
      h1 h2 by blast
  have b: "get_email_from_token ex_auth ex_a1 (ex_t0 + 5000000) = Inr (PStr ''a@example.com'')"
    using email_token_no_purpose_check
      [of ex_r1 ex_auth "ex_t0 + 5000000" ex_payload "PStr ''a@example.com''" ex_t0
        "''a@example.com''"]
      h3 unfolding ex_a1_def by blast
  have c: "get_email_from_token ex_auth ex_forged (ex_t0 + 5000000)
       = Inl (HTTPException 422 ''Invalid token for email verification'')"
    using email_token_no_purpose_check
      [of ex_forged ex_auth "ex_t0 + 5000000" ex_payload "PStr ''a@example.com''" ex_t0
        "''a@example.com''"]
      h4 h5 by blast
  from h1 h3 h4 a b c show ?thesis by blast
qed


section \<open>Refresh for an absent account\<close>

text \<open>
  C10. For every token that decodes successfully with scope \<open>refresh_token\<close> and whose
  subject is not in the user store, \<open>Refresh\<close> does not fail with an HTTP 401: reading
  \<open>refresh_token\<close> of the missing record raises an unhandled \<open>AttributeError\<close>, and the
  store is unchanged.
\<close>

theorem refresh_absent_account:
  assumes "jwt_decode token (SECRET_KEY self) [ALGORITHM self] now = Inr payload"
    and "map_of payload ''scope'' = Some (PStr ''refresh_token'')"
    and "map_of payload ''sub'' = Some email"
    and "get_user_by_email email db = None"
  shows "refresh_token self token db now = (Inl (AttributeError ''refresh_token''), db)"
  using assms by (simp add: refresh_token_def decode_refresh_token_def)

theorem refresh_absent_account_witness:
  "jwt_decode ex_r1 (SECRET_KEY ex_auth) [ALGORITHM ex_auth] (ex_t0 + 5000000) = Inr ex_payload
   \<and> get_user_by_email (PStr ''a@example.com'') [] = None
   \<and> refresh_token ex_auth ex_r1 [] (ex_t0 + 5000000)
       = (Inl (AttributeError ''refresh_token''), [])"
proof -
  have h1: "jwt_decode ex_r1 (SECRET_KEY ex_auth) [ALGORITHM ex_auth] (ex_t0 + 5000000)
     = Inr ex_payload"
    by (simp add: ex_defs eval_defs)
  have h2: "map_of ex_payload ''scope'' = Some (PStr ''refresh_token'')"
    by (simp add: ex_payload_def)
  have h3: "map_of ex_payload ''sub'' = Some (PStr ''a@example.com'')"
    by (simp add: ex_payload_def)
  have h4: "get_user_by_email (PStr ''a@example.com'') [] = None"
    by (simp add: get_user_by_email_def)
  from refresh_absent_account [OF h1 h2 h3 h4] h1 h4
  show ?thesis by simp
qed

end
